theory Spec2Isabelle
  imports Main "HOL-Library.Multiset"
begin

section \<open>Data model\<close>

text \<open>
  The repository has two pieces of logic: the SQL function
  \<^verbatim>\<open>get_undone_scrape_jobs\<close> (migrations/CreateGetUndoneScrapeJobs.sql) and the
  edge function \<^verbatim>\<open>process-scrape-jobs/index.ts\<close>, which fetches the batch that
  function returns, posts every job to the Flask server and marks the job and its
  parts \<^verbatim>\<open>ongoing\<close>.

  A \<^verbatim>\<open>uuid\<close> is kept as its text. A \<^verbatim>\<open>timestamptz\<close> is kept as the instant it
  denotes (microseconds since the epoch), which is what \<^verbatim>\<open>ORDER BY\<close> compares;
  the edge function receives its JSON text and only copies it into the payload.
\<close>

type_synonym uuid = string
type_synonym timestamptz = int

text \<open>\<^verbatim>\<open>interface JobPart\<close> and \<^verbatim>\<open>interface ScrapeJob\<close> of index.ts; a
  \<^verbatim>\<open>ScrapeJob\<close> is also one row of the table \<^verbatim>\<open>get_undone_scrape_jobs\<close> returns.\<close>

record JobPart =
  part_id :: uuid
  postcode :: "string option"
  keyword :: "string option"
  city :: "string option"
  state :: "string option"
  country :: "string option"

record ScrapeJob =
  job_id :: uuid
  profile_id :: uuid
  scraper_engine :: string
  created_at :: timestamptz
  job_parts :: "JobPart list"

text \<open>The two tables, with the columns the SQL function and the edge function name
  (\<^verbatim>\<open>sj\<close> and \<^verbatim>\<open>sjp\<close> are the aliases of the query).\<close>

record scrape_jobs_row =
  sj_id :: uuid
  sj_profile_id :: uuid
  sj_scraper_engine :: string
  sj_created_at :: timestamptz
  sj_status :: string

record scrape_job_parts_row =
  sjp_id :: uuid
  sjp_job_id :: uuid
  sjp_postcode :: "string option"
  sjp_keyword :: "string option"
  sjp_city :: "string option"
  sjp_state :: "string option"
  sjp_country :: "string option"
  sjp_status :: string

record database =
  scrape_jobs :: "scrape_jobs_row list"
  scrape_job_parts :: "scrape_job_parts_row list"

section \<open>The SQL function get\_undone\_scrape\_jobs\<close>

text \<open>\<^verbatim>\<open>json_build_object('part_id', sjp.id, 'postcode', sjp.postcode, ...)\<close>\<close>

definition json_build_object :: "scrape_job_parts_row \<Rightarrow> JobPart" where
  "json_build_object sjp =
     \<lparr>part_id = sjp_id sjp, postcode = sjp_postcode sjp, keyword = sjp_keyword sjp,
      city = sjp_city sjp, state = sjp_state sjp, country = sjp_country sjp\<rparr>"

text \<open>\<^verbatim>\<open>FROM scrape_jobs sj JOIN scrape_job_parts sjp ON sj.id = sjp.job_id
  WHERE sj.status = 'undone' AND sjp.status = 'undone'\<close>\<close>

definition joined_rows :: "database \<Rightarrow> (scrape_jobs_row \<times> scrape_job_parts_row) list" where
  "joined_rows d =
     [(sj, sjp). sj \<leftarrow> scrape_jobs d, sjp \<leftarrow> scrape_job_parts d,
        sj_id sj = sjp_job_id sjp,
        sj_status sj = ''undone'' \<and> sjp_status sjp = ''undone'']"

text \<open>\<^verbatim>\<open>GROUP BY sj.id, sj.profile_id, sj.scraper_engine, sj.created_at\<close>\<close>

definition group_key :: "scrape_jobs_row \<Rightarrow> uuid \<times> uuid \<times> string \<times> timestamptz" where
  "group_key sj = (sj_id sj, sj_profile_id sj, sj_scraper_engine sj, sj_created_at sj)"

text \<open>
  The whole query: one row per group, \<^verbatim>\<open>json_agg\<close> over the joined rows of the
  group, \<^verbatim>\<open>ORDER BY sj.created_at ASC\<close>. SQL leaves the order of rows with equal
  \<^verbatim>\<open>created_at\<close> and the order inside \<^verbatim>\<open>json_agg\<close> open; the model takes the
  order of the tables (a stable sort).
\<close>

definition get_undone_scrape_jobs :: "database \<Rightarrow> ScrapeJob list" where
  "get_undone_scrape_jobs d =
     (let rows = joined_rows d in
      sort_key created_at
        [\<lparr>job_id = i, profile_id = p, scraper_engine = e, created_at = c,
          job_parts = [json_build_object sjp. (sj, sjp) \<leftarrow> rows, group_key sj = (i, p, e, c)]\<rparr>.
         (i, p, e, c) \<leftarrow> remdups (map (\<lambda>r. group_key (fst r)) rows)])"

section \<open>JavaScript values the edge function handles\<close>

text \<open>A thrown value or a Postgrest error object; the code reads only \<^verbatim>\<open>.message\<close>.\<close>

datatype js_error = Error (message: string)

text \<open>
  A value \<^verbatim>\<open>Response.json()\<close> can give. The handler does two things with a number:
  it prints it in a template literal and it tests it for truthiness. A number is
  therefore kept as the text \<^verbatim>\<open>String(n)\<close> gives for it (\<^verbatim>\<open>"0.5"\<close>,
  \<^verbatim>\<open>"1e+21"\<close>, \<^verbatim>\<open>"-3"\<close>); that text determines the number up to the sign of
  zero, and both zeros print as \<^verbatim>\<open>"0"\<close>.
\<close>

datatype json =
    JNull
  | JBool bool
  | JNum string
  | JStr string
  | JArr "json list"
  | JObj "(string \<times> json) list"

definition digit_char :: "nat \<Rightarrow> char" where
  "digit_char d = ''0123456789'' ! d"

fun string_of_nat :: "nat \<Rightarrow> string" where
  "string_of_nat n =
     (if n < 10 then [digit_char n]
      else string_of_nat (n div 10) @ [digit_char (n mod 10)])"

declare string_of_nat.simps [simp del]

fun join_comma :: "string list \<Rightarrow> string" where
  "join_comma [] = []"
| "join_comma [s] = s"
| "join_comma (s # t # ss) = s @ CHR '','' # join_comma (t # ss)"

text \<open>String conversion, as a template literal \<^verbatim>\<open>`${v}`\<close> does it. \<open>None\<close> is
  \<^verbatim>\<open>undefined\<close>. \<^verbatim>\<open>Array.prototype.toString\<close> joins with commas and renders
  a \<^verbatim>\<open>null\<close> element as the empty string.\<close>

fun js_string :: "json \<Rightarrow> string" where
  "js_string JNull = ''null''"
| "js_string (JBool b) = (if b then ''true'' else ''false'')"
| "js_string (JNum n) = n"
| "js_string (JStr s) = s"
| "js_string (JArr xs) = join_comma (map (\<lambda>x. if x = JNull then [] else js_string x) xs)"
| "js_string (JObj kvs) = ''[object Object]''"

definition template :: "json option \<Rightarrow> string" where
  "template v = (case v of None \<Rightarrow> ''undefined'' | Some x \<Rightarrow> js_string x)"

text \<open>String conversion of an environment variable (\<^verbatim>\<open>string | undefined\<close>).\<close>

definition template_str :: "string option \<Rightarrow> string" where
  "template_str v = (case v of None \<Rightarrow> ''undefined'' | Some s \<Rightarrow> s)"

text \<open>\<^verbatim>\<open>!v\<close> on a \<^verbatim>\<open>string | undefined\<close>: true for \<^verbatim>\<open>undefined\<close> and for the
  empty string.\<close>

definition falsy_str :: "string option \<Rightarrow> bool" where
  "falsy_str v = (case v of None \<Rightarrow> True | Some s \<Rightarrow> s = [])"

text \<open>Truthiness of a value read from the parsed response. Of the numbers a parsed
  body can hold, only the two zeros are falsy.\<close>

fun truthy :: "json option \<Rightarrow> bool" where
  "truthy None = False"
| "truthy (Some JNull) = False"
| "truthy (Some (JBool b)) = b"
| "truthy (Some (JNum n)) = (n \<noteq> ''0'')"
| "truthy (Some (JStr s)) = (s \<noteq> [])"
| "truthy (Some (JArr xs)) = True"
| "truthy (Some (JObj kvs)) = True"

text \<open>
  Property read \<^verbatim>\<open>v.k\<close> for the two keys the code reads (\<^verbatim>\<open>success\<close>,
  \<^verbatim>\<open>error\<close>; neither is on a prototype). On \<^verbatim>\<open>null\<close> it throws a TypeError
  (the message is V8's); on an object it is the own property (a parsed object holds
  each key once) or \<^verbatim>\<open>undefined\<close>; on every other value it is \<^verbatim>\<open>undefined\<close>.
\<close>

fun get_prop :: "json \<Rightarrow> string \<Rightarrow> js_error + json option" where
  "get_prop JNull k =
     Inl (Error (''Cannot read properties of null (reading '' @ [CHR 0x27] @ k @ [CHR 0x27] @ '')''))"
| "get_prop (JObj kvs) k = Inr (map_of kvs k)"
| "get_prop v k = Inr None"

section \<open>The collaborators: job store, remote executor, environment\<close>

text \<open>
  Every call the edge function makes to the outside is logged, in order. The log is
  how the theorems say that a call was or was not made.
\<close>

datatype call =
    Rpc string
    \<comment> \<open>\<^verbatim>\<open>supabase.rpc(name)\<close>\<close>
  | Fetch string ScrapeJob
    \<comment> \<open>\<^verbatim>\<open>fetch(url, {method: "POST", body: JSON.stringify(jobData)})\<close>\<close>
  | UpdateScrapeJobs string uuid
    \<comment> \<open>\<^verbatim>\<open>from("scrape_jobs").update({status}).eq("id", id)\<close>\<close>
  | UpdateScrapeJobParts string uuid
    \<comment> \<open>\<^verbatim>\<open>from("scrape_job_parts").update({status}).eq("job_id", id)\<close>\<close>

text \<open>A store call either rejects (the \<^verbatim>\<open>await\<close> throws), or resolves to a result
  whose \<^verbatim>\<open>error\<close> is set, or goes through.\<close>

datatype fault = Rejects js_error | ErrorResult js_error

text \<open>What the code reads of the executor's \<^verbatim>\<open>Response\<close>: \<^verbatim>\<open>status\<close> (and
  \<^verbatim>\<open>ok\<close>, which is status 200 to 299), \<^verbatim>\<open>text()\<close> and \<^verbatim>\<open>json()\<close>; the
  last two can reject.\<close>

record FetchResponse =
  status :: nat
  body_text :: "js_error + string"
  body_json :: "js_error + json"

definition ok :: "FetchResponse \<Rightarrow> bool" where
  "ok r = (200 \<le> status r \<and> status r \<le> 299)"

text \<open>
  The behaviour of the outside, given to the model as a parameter: the environment
  variables, what the client constructor of supabase-js does with its two arguments,
  whether a store call fails, how the executor answers, and the clock. The store and
  the executor may answer differently depending on the calls made before.
\<close>

record ext =
  env :: "string \<Rightarrow> string option"
  createClient :: "string option \<Rightarrow> string option \<Rightarrow> js_error + unit"
  store_fault :: "call list \<Rightarrow> call \<Rightarrow> fault option"
  fetch_reply :: "call list \<Rightarrow> string \<Rightarrow> ScrapeJob \<Rightarrow> js_error + FetchResponse"
  now :: string

record wstate =
  db :: database
  trace :: "call list"

text \<open>\<^verbatim>\<open>supabase.rpc("get_undone_scrape_jobs")\<close>: resolves to \<^verbatim>\<open>{data, error}\<close>.\<close>

definition rpc_get_undone_scrape_jobs ::
  "ext \<Rightarrow> wstate \<Rightarrow> (js_error + (ScrapeJob list option \<times> js_error option)) \<times> wstate" where
  "rpc_get_undone_scrape_jobs x st =
     (let c = Rpc ''get_undone_scrape_jobs''; st' = st\<lparr>trace := trace st @ [c]\<rparr> in
      case store_fault x (trace st) c of
        Some (Rejects e) \<Rightarrow> (Inl e, st')
      | Some (ErrorResult err) \<Rightarrow> (Inr (None, Some err), st')
      | None \<Rightarrow> (Inr (Some (get_undone_scrape_jobs (db st)), None), st'))"

text \<open>\<^verbatim>\<open>UPDATE scrape_jobs SET status = v WHERE id = i\<close> and
  \<^verbatim>\<open>UPDATE scrape_job_parts SET status = v WHERE job_id = i\<close>, which is what the
  two query-builder chains ask the store to do.\<close>

definition set_scrape_jobs_status :: "string \<Rightarrow> uuid \<Rightarrow> database \<Rightarrow> database" where
  "set_scrape_jobs_status v i d =
     d\<lparr>scrape_jobs := map (\<lambda>sj. if sj_id sj = i then sj\<lparr>sj_status := v\<rparr> else sj) (scrape_jobs d)\<rparr>"

definition set_scrape_job_parts_status :: "string \<Rightarrow> uuid \<Rightarrow> database \<Rightarrow> database" where
  "set_scrape_job_parts_status v i d =
     d\<lparr>scrape_job_parts :=
          map (\<lambda>sjp. if sjp_job_id sjp = i then sjp\<lparr>sjp_status := v\<rparr> else sjp) (scrape_job_parts d)\<rparr>"

text \<open>An update call resolves to \<^verbatim>\<open>{error}\<close>; a failed update changes no row.\<close>

definition store_update ::
  "ext \<Rightarrow> call \<Rightarrow> (database \<Rightarrow> database) \<Rightarrow> wstate \<Rightarrow> (js_error + js_error option) \<times> wstate" where
  "store_update x c f st =
     (let st' = st\<lparr>trace := trace st @ [c]\<rparr> in
      case store_fault x (trace st) c of
        Some (Rejects e) \<Rightarrow> (Inl e, st')
      | Some (ErrorResult err) \<Rightarrow> (Inr (Some err), st')
      | None \<Rightarrow> (Inr None, st'\<lparr>db := f (db st)\<rparr>))"

definition update_scrape_jobs ::
  "ext \<Rightarrow> string \<Rightarrow> uuid \<Rightarrow> wstate \<Rightarrow> (js_error + js_error option) \<times> wstate" where
  "update_scrape_jobs x v i st =
     store_update x (UpdateScrapeJobs v i) (set_scrape_jobs_status v i) st"

definition update_scrape_job_parts ::
  "ext \<Rightarrow> string \<Rightarrow> uuid \<Rightarrow> wstate \<Rightarrow> (js_error + js_error option) \<times> wstate" where
  "update_scrape_job_parts x v i st =
     store_update x (UpdateScrapeJobParts v i) (set_scrape_job_parts_status v i) st"

text \<open>\<^verbatim>\<open>await fetch(url, ...)\<close>\<close>

definition fetch :: "ext \<Rightarrow> string \<Rightarrow> ScrapeJob \<Rightarrow> wstate \<Rightarrow> (js_error + FetchResponse) \<times> wstate" where
  "fetch x url jobData st =
     (fetch_reply x (trace st) url jobData, st\<lparr>trace := trace st @ [Fetch url jobData]\<rparr>)"

section \<open>The edge function\<close>

text \<open>
  The handler of index.ts, statement by statement. Each \<^verbatim>\<open>await\<close> on a collaborator
  is a call that returns the value or the exception together with the state after it.
  What the handler writes to the console is left out; the one reading of the clock per
  answer is \<open>now\<close>. A job is a record and a thrown value carries a message, so
  the reads \<^verbatim>\<open>job.job_id\<close> and \<^verbatim>\<open>jobError.message\<close> in the \<^verbatim>\<open>catch\<close> of the
  loop body do not throw themselves.
\<close>

record processed_job =
  pj_job_id :: uuid
  flask_response :: json

record failed_job =
  fj_job_id :: uuid
  fj_error :: string

text \<open>The objects given to \<^verbatim>\<open>JSON.stringify\<close> for the response body, and the
  plain \<^verbatim>\<open>"ok"\<close> of the pre-flight answer.\<close>

datatype body =
    Plain string
  | NoJobs string string
    \<comment> \<open>\<^verbatim>\<open>{message, timestamp}\<close>\<close>
  | Summary bool string "processed_job list" "failed_job list" nat string
    \<comment> \<open>\<^verbatim>\<open>{success, message, processed_jobs, failed_jobs, total_found, timestamp}\<close>\<close>
  | Failure bool string string
    \<comment> \<open>\<^verbatim>\<open>{success, error, timestamp}\<close>\<close>

record Response =
  resp_status :: nat
  resp_headers :: "(string \<times> string) list"
  resp_body :: body

record Request =
  req_method :: string

definition corsHeaders :: "(string \<times> string) list" where
  "corsHeaders =
     [(''Access-Control-Allow-Origin'', ''*''),
      (''Access-Control-Allow-Headers'', ''authorization, x-client-info, apikey, content-type'')]"

definition json_headers :: "(string \<times> string) list" where
  "json_headers = corsHeaders @ [(''Content-Type'', ''application/json'')]"

text \<open>\<^verbatim>\<open>`${flaskServerUrl}/api/jobs/submit`\<close>\<close>

definition submit_url :: "string option \<Rightarrow> string" where
  "submit_url flaskServerUrl = template_str flaskServerUrl @ ''/api/jobs/submit''"

text \<open>What one run of the \<^verbatim>\<open>try\<close> block of the loop body pushes when it does not
  throw: an entry of \<^verbatim>\<open>processedJobs\<close> or (before a \<^verbatim>\<open>continue\<close>) of
  \<^verbatim>\<open>failedJobs\<close>.\<close>

datatype job_result = Processed processed_job | Failed failed_job

text \<open>The \<^verbatim>\<open>try\<close> block of the loop body (lines 85 to 171). \<open>Inl\<close> is an exception
  leaving the block.\<close>

definition try_body ::
  "ext \<Rightarrow> string option \<Rightarrow> ScrapeJob \<Rightarrow> wstate \<Rightarrow> (js_error + job_result) \<times> wstate" where
  "try_body x flaskServerUrl job st =
     (let jobData = \<lparr>job_id = job_id job, profile_id = profile_id job,
                     scraper_engine = scraper_engine job, created_at = created_at job,
                     job_parts = job_parts job\<rparr> in
      case fetch x (submit_url flaskServerUrl) jobData st of
        (Inl e, st1) \<Rightarrow> (Inl e, st1)
      | (Inr flaskResponse, st1) \<Rightarrow>
          if \<not> ok flaskResponse then
            (case body_text flaskResponse of
               Inl e \<Rightarrow> (Inl e, st1)
             | Inr errorText \<Rightarrow>
                 (Inr (Failed \<lparr>fj_job_id = job_id job,
                                fj_error = ''Flask API error ('' @ string_of_nat (status flaskResponse)
                                           @ ''): '' @ errorText\<rparr>), st1))
          else
            (case body_json flaskResponse of
               Inl e \<Rightarrow> (Inl e, st1)
             | Inr flaskResult \<Rightarrow>
                 (case get_prop flaskResult ''success'' of
                    Inl e \<Rightarrow> (Inl e, st1)
                  | Inr success \<Rightarrow>
                      if \<not> truthy success then
                        (case get_prop flaskResult ''error'' of
                           Inl e \<Rightarrow> (Inl e, st1)
                         | Inr err \<Rightarrow>
                             (Inr (Failed \<lparr>fj_job_id = job_id job,
                                            fj_error = ''Flask API failure: '' @ template err\<rparr>), st1))
                      else
                        (case update_scrape_jobs x ''ongoing'' (job_id job) st1 of
                           (Inl e, st2) \<Rightarrow> (Inl e, st2)
                         | (Inr (Some updateJobError), st2) \<Rightarrow>
                             (Inr (Failed \<lparr>fj_job_id = job_id job,
                                            fj_error = ''DB update error: '' @ message updateJobError\<rparr>), st2)
                         | (Inr None, st2) \<Rightarrow>
                             (case update_scrape_job_parts x ''ongoing'' (job_id job) st2 of
                                (Inl e, st3) \<Rightarrow> (Inl e, st3)
                              | (Inr (Some updatePartsError), st3) \<Rightarrow>
                                  (Inr (Failed \<lparr>fj_job_id = job_id job,
                                                 fj_error = ''DB parts update error: ''
                                                            @ message updatePartsError\<rparr>), st3)
                              | (Inr None, st3) \<Rightarrow>
                                  (Inr (Processed \<lparr>pj_job_id = job_id job,
                                                    flask_response = flaskResult\<rparr>), st3))))))"

text \<open>One iteration of \<^verbatim>\<open>for (const job of jobs)\<close>: the \<^verbatim>\<open>try\<close> block and its
  \<^verbatim>\<open>catch (jobError)\<close>, on the two accumulators.\<close>

definition process_job ::
  "ext \<Rightarrow> string option \<Rightarrow> ScrapeJob \<Rightarrow> processed_job list \<times> failed_job list \<Rightarrow> wstate
     \<Rightarrow> (processed_job list \<times> failed_job list) \<times> wstate" where
  "process_job x flaskServerUrl job acc st =
     (case acc of (processedJobs, failedJobs) \<Rightarrow>
        (case try_body x flaskServerUrl job st of
           (Inr (Processed p), st') \<Rightarrow> ((processedJobs @ [p], failedJobs), st')
         | (Inr (Failed f), st') \<Rightarrow> ((processedJobs, failedJobs @ [f]), st')
         | (Inl jobError, st') \<Rightarrow>
             ((processedJobs,
               failedJobs @ [\<lparr>fj_job_id = job_id job, fj_error = message jobError\<rparr>]), st')))"

fun for_jobs ::
  "ext \<Rightarrow> string option \<Rightarrow> ScrapeJob list \<Rightarrow> processed_job list \<times> failed_job list \<Rightarrow> wstate
     \<Rightarrow> (processed_job list \<times> failed_job list) \<times> wstate" where
  "for_jobs x flaskServerUrl [] acc st = (acc, st)"
| "for_jobs x flaskServerUrl (job # jobs) acc st =
     (case process_job x flaskServerUrl job acc st of
        (acc', st') \<Rightarrow> for_jobs x flaskServerUrl jobs acc' st')"

text \<open>The outer \<^verbatim>\<open>try\<close> block (lines 33 to 191). \<open>Inl\<close> is an exception leaving
  it.\<close>

definition try_pass :: "ext \<Rightarrow> wstate \<Rightarrow> (js_error + Response) \<times> wstate" where
  "try_pass x st =
     (let supabaseUrl = env x ''SUPABASE_URL'';
          serviceRoleKey = env x ''SERVICE_ROLE_KEY'';
          flaskServerUrl = env x ''REDIS_URL'' in
      if falsy_str serviceRoleKey then
        (Inl (Error ''SERVICE_ROLE_KEY environment variable is required''), st)
      else if falsy_str flaskServerUrl then
        (Inl (Error ''REDIS_URL environment variable is required''), st)
      else
        (case createClient x supabaseUrl serviceRoleKey of
           Inl e \<Rightarrow> (Inl e, st)
         | Inr supabase \<Rightarrow>
             (case rpc_get_undone_scrape_jobs x st of
                (Inl e, st1) \<Rightarrow> (Inl e, st1)
              | (Inr (jobs, Some queryError), st1) \<Rightarrow> (Inl queryError, st1)
              | (Inr (None, None), st1) \<Rightarrow>
                  (Inr \<lparr>resp_status = 200, resp_headers = json_headers,
                        resp_body = NoJobs ''No undone jobs found'' (now x)\<rparr>, st1)
              | (Inr (Some jobs, None), st1) \<Rightarrow>
                  if length jobs = 0 then
                    (Inr \<lparr>resp_status = 200, resp_headers = json_headers,
                          resp_body = NoJobs ''No undone jobs found'' (now x)\<rparr>, st1)
                  else
                    (case for_jobs x flaskServerUrl jobs ([], []) st1 of
                       ((processedJobs, failedJobs), st2) \<Rightarrow>
                         (Inr \<lparr>resp_status = 200, resp_headers = json_headers,
                               resp_body =
                                 Summary True
                                   (''Processed '' @ string_of_nat (length processedJobs)
                                    @ '' jobs successfully, '' @ string_of_nat (length failedJobs)
                                    @ '' failed'')
                                   processedJobs failedJobs (length jobs) (now x)\<rparr>, st2)))))"

text \<open>The handler given to \<^verbatim>\<open>serve\<close>.\<close>

definition serve :: "ext \<Rightarrow> Request \<Rightarrow> wstate \<Rightarrow> Response \<times> wstate" where
  "serve x req st =
     (if req_method req = ''OPTIONS'' then
        (\<lparr>resp_status = 200, resp_headers = corsHeaders, resp_body = Plain ''ok''\<rparr>, st)
      else
        (case try_pass x st of
           (Inr response, st') \<Rightarrow> (response, st')
         | (Inl error, st') \<Rightarrow>
             (\<lparr>resp_status = 500, resp_headers = json_headers,
               resp_body = Failure False (message error) (now x)\<rparr>, st')))"

section \<open>Concrete runs\<close>

text \<open>
  A small store and a few behaviours of the outside, for the examples after the
  theorems. Job X has one part still \<^verbatim>\<open>undone\<close> and one already \<^verbatim>\<open>done\<close>; job Y
  was created after X and has one part.
\<close>

definition rowX :: scrape_jobs_row where
  "rowX = \<lparr>sj_id = ''X'', sj_profile_id = ''P'', sj_scraper_engine = ''maps'',
           sj_created_at = 1, sj_status = ''undone''\<rparr>"

definition rowY :: scrape_jobs_row where
  "rowY = \<lparr>sj_id = ''Y'', sj_profile_id = ''P'', sj_scraper_engine = ''maps'',
           sj_created_at = 2, sj_status = ''undone''\<rparr>"

definition partX1 :: scrape_job_parts_row where
  "partX1 = \<lparr>sjp_id = ''X1'', sjp_job_id = ''X'', sjp_postcode = Some ''LS1'',
             sjp_keyword = Some ''cafe'', sjp_city = None, sjp_state = None,
             sjp_country = None, sjp_status = ''undone''\<rparr>"

definition partX2 :: scrape_job_parts_row where
  "partX2 = \<lparr>sjp_id = ''X2'', sjp_job_id = ''X'', sjp_postcode = Some ''LS2'',
             sjp_keyword = Some ''cafe'', sjp_city = None, sjp_state = None,
             sjp_country = None, sjp_status = ''done''\<rparr>"

definition partY1 :: scrape_job_parts_row where
  "partY1 = \<lparr>sjp_id = ''Y1'', sjp_job_id = ''Y'', sjp_postcode = None,
             sjp_keyword = Some ''gym'', sjp_city = Some ''Leeds'', sjp_state = None,
             sjp_country = None, sjp_status = ''undone''\<rparr>"

definition db_empty :: database where
  "db_empty = \<lparr>scrape_jobs = [], scrape_job_parts = []\<rparr>"

definition db_X :: database where
  "db_X = \<lparr>scrape_jobs = [rowX], scrape_job_parts = [partX1, partX2]\<rparr>"

definition db_XY :: database where
  "db_XY = \<lparr>scrape_jobs = [rowY, rowX], scrape_job_parts = [partX1, partX2, partY1]\<rparr>"

definition JobX :: ScrapeJob where
  "JobX = \<lparr>job_id = ''X'', profile_id = ''P'', scraper_engine = ''maps'', created_at = 1,
           job_parts = [\<lparr>part_id = ''X1'', postcode = Some ''LS1'', keyword = Some ''cafe'',
                         city = None, state = None, country = None\<rparr>]\<rparr>"

definition JobY :: ScrapeJob where
  "JobY = \<lparr>job_id = ''Y'', profile_id = ''P'', scraper_engine = ''maps'', created_at = 2,
           job_parts = [\<lparr>part_id = ''Y1'', postcode = None, keyword = Some ''gym'',
                         city = Some ''Leeds'', state = None, country = None\<rparr>]\<rparr>"

definition env_all :: "string \<Rightarrow> string option" where
  "env_all = map_of [(''SUPABASE_URL'', ''https://db.example''),
                     (''SERVICE_ROLE_KEY'', ''secret''),
                     (''REDIS_URL'', ''http://flask:5000'')]"

definition env_no_supabase_url :: "string \<Rightarrow> string option" where
  "env_no_supabase_url = map_of [(''SERVICE_ROLE_KEY'', ''secret''),
                                 (''REDIS_URL'', ''http://flask:5000'')]"

definition env_no_key :: "string \<Rightarrow> string option" where
  "env_no_key = map_of [(''SUPABASE_URL'', ''https://db.example''),
                        (''REDIS_URL'', ''http://flask:5000'')]"

definition env_no_redis_url :: "string \<Rightarrow> string option" where
  "env_no_redis_url = map_of [(''SUPABASE_URL'', ''https://db.example''),
                              (''SERVICE_ROLE_KEY'', ''secret'')]"

text \<open>The client constructor as supabase-js has it: it throws on an absent or empty
  URL, then on an absent or empty key.\<close>

definition client_strict :: "string option \<Rightarrow> string option \<Rightarrow> js_error + unit" where
  "client_strict supabaseUrl supabaseKey =
     (if falsy_str supabaseUrl then Inl (Error ''supabaseUrl is required.'')
      else if falsy_str supabaseKey then Inl (Error ''supabaseKey is required.'')
      else Inr ())"

definition no_fault :: "call list \<Rightarrow> call \<Rightarrow> fault option" where
  "no_fault tr c = None"

text \<open>The store refuses every update of \<^verbatim>\<open>scrape_jobs\<close>.\<close>

definition jobs_update_denied :: "call list \<Rightarrow> call \<Rightarrow> fault option" where
  "jobs_update_denied tr c =
     (case c of UpdateScrapeJobs v i \<Rightarrow> Some (ErrorResult (Error ''permission denied''))
      | _ \<Rightarrow> None)"

definition accepted :: FetchResponse where
  "accepted = \<lparr>status = 200, body_text = Inr ''accepted'',
               body_json = Inr (JObj [(''success'', JBool True), (''queued'', JNum ''1'')])\<rparr>"

definition refused :: FetchResponse where
  "refused = \<lparr>status = 200, body_text = Inr ''refused'',
              body_json = Inr (JObj [(''success'', JBool False), (''error'', JStr ''queue full'')])\<rparr>"



definition busy :: FetchResponse where
  "busy = \<lparr>status = 503, body_text = Inr ''overloaded'',
                 body_json = Inl (Error ''Unexpected token o in JSON at position 0'')\<rparr>"

definition always :: "FetchResponse \<Rightarrow> call list \<Rightarrow> string \<Rightarrow> ScrapeJob \<Rightarrow> js_error + FetchResponse" where
  "always r tr url jobData = Inr r"


definition outside ::
  "(string \<Rightarrow> string option) \<Rightarrow> (string option \<Rightarrow> string option \<Rightarrow> js_error + unit)
     \<Rightarrow> (call list \<Rightarrow> call \<Rightarrow> fault option)
     \<Rightarrow> (call list \<Rightarrow> string \<Rightarrow> ScrapeJob \<Rightarrow> js_error + FetchResponse) \<Rightarrow> ext" where
  "outside e cc sf fr =
     \<lparr>env = e, createClient = cc, store_fault = sf, fetch_reply = fr,
      now = ''2025-01-01T00:00:00.000Z''\<rparr>"

definition post :: Request where
  "post = \<lparr>req_method = ''POST''\<rparr>"

definition start :: "database \<Rightarrow> wstate" where
  "start d = \<lparr>db = d, trace = []\<rparr>"

section \<open>Facts about the SQL function\<close>

lemma set_joined_rows:
  "set (joined_rows d) =
     {(sj, sjp). sj \<in> set (scrape_jobs d) \<and> sjp \<in> set (scrape_job_parts d) \<and>
        sj_id sj = sjp_job_id sjp \<and> sj_status sj = ''undone'' \<and> sjp_status sjp = ''undone''}"
  by (auto simp: joined_rows_def)

lemma group_parts_filter:
  "[json_build_object sjp. (sj, sjp) \<leftarrow> rows, group_key sj = k] =
     map json_build_object (map snd (filter (\<lambda>r. group_key (fst r) = k) rows))"
  by (induction rows) auto

lemma comprehension_filter: "[f y. y \<leftarrow> ys, Q y] = map f (filter Q ys)"
  by (induction ys) auto

lemma joined_one_job:
  "map snd (filter (\<lambda>r. group_key (fst r) = k)
      [(sj, sjp). sjp \<leftarrow> ps, sj_id sj = sjp_job_id sjp,
         sj_status sj = ''undone'' \<and> sjp_status sjp = ''undone'']) =
   (if group_key sj = k
    then filter (\<lambda>sjp. sjp_job_id sjp = sj_id sj \<and> sj_status sj = ''undone'' \<and>
                        sjp_status sjp = ''undone'') ps
    else [])"
  by (induction ps) auto

lemma joined_other_jobs:
  "\<forall>sj \<in> set js. group_key sj \<noteq> k \<Longrightarrow>
   map snd (filter (\<lambda>r. group_key (fst r) = k)
      [(sj, sjp). sj \<leftarrow> js, sjp \<leftarrow> ps, sj_id sj = sjp_job_id sjp,
         sj_status sj = ''undone'' \<and> sjp_status sjp = ''undone'']) = []"
proof (induction js)
  case Nil
  then show ?case by simp
next
  case (Cons sj js)
  then show ?case using joined_one_job [of k sj ps] by simp
qed

lemma group_key_id: "group_key a = group_key b \<Longrightarrow> sj_id a = sj_id b"
  by (simp add: group_key_def)

text \<open>With \<^verbatim>\<open>id\<close> a key of \<^verbatim>\<open>scrape_jobs\<close>, the joined rows of one group are the
  rows of one job.\<close>

lemma joined_this_job:
  "distinct (map sj_id js) \<Longrightarrow> sj0 \<in> set js \<Longrightarrow>
   map snd (filter (\<lambda>r. group_key (fst r) = group_key sj0)
      [(sj, sjp). sj \<leftarrow> js, sjp \<leftarrow> ps, sj_id sj = sjp_job_id sjp,
         sj_status sj = ''undone'' \<and> sjp_status sjp = ''undone'']) =
   filter (\<lambda>sjp. sjp_job_id sjp = sj_id sj0 \<and> sj_status sj0 = ''undone'' \<and>
                  sjp_status sjp = ''undone'') ps"
proof (induction js)
  case Nil
  then show ?case by simp
next
  case (Cons sj js)
  show ?case
  proof (cases "sj = sj0")
    case True
    from Cons.prems(1) True have "sj_id sj0 \<notin> sj_id ` set js"
      by simp
    then have "\<forall>s \<in> set js. sj_id s \<noteq> sj_id sj0"
      by (metis imageI)
    then have "\<forall>s \<in> set js. group_key s \<noteq> group_key sj0"
      using group_key_id by blast
    from joined_other_jobs [OF this, of ps] joined_one_job [of "group_key sj0" sj0 ps] True
    show ?thesis by simp
  next
    case False
    with Cons.prems have in_rest: "sj0 \<in> set js" and d: "distinct (map sj_id js)"
      and "sj_id sj \<noteq> sj_id sj0"
      by auto
    then have "group_key sj \<noteq> group_key sj0"
      by (auto dest: group_key_id)
    with joined_one_job [of "group_key sj0" sj ps] Cons.IH [OF d in_rest]
    show ?thesis by simp
  qed
qed

lemma parts_of_group:
  assumes "distinct (map sj_id (scrape_jobs d))" and "sj \<in> set (scrape_jobs d)"
    and "sj_status sj = ''undone''"
  shows "[json_build_object sjp. (s, sjp) \<leftarrow> joined_rows d, group_key s = group_key sj] =
         [json_build_object sjp. sjp \<leftarrow> scrape_job_parts d,
            sjp_job_id sjp = sj_id sj \<and> sjp_status sjp = ''undone'']"
proof -
  have "map snd (filter (\<lambda>r. group_key (fst r) = group_key sj) (joined_rows d)) =
        filter (\<lambda>sjp. sjp_job_id sjp = sj_id sj \<and> sjp_status sjp = ''undone'') (scrape_job_parts d)"
    unfolding joined_rows_def using joined_this_job [OF assms(1,2)] assms(3) by simp
  then show ?thesis
    by (simp only: group_parts_filter comprehension_filter)
qed

lemma unsorted_rows:
  "[\<lparr>job_id = i, profile_id = p, scraper_engine = e, created_at = c,
          job_parts = [json_build_object sjp. (sj, sjp) \<leftarrow> rows, group_key sj = (i, p, e, c)]\<rparr>.
         (i, p, e, c) \<leftarrow> ks] =
   map (\<lambda>k. case k of (i, p, e, c) \<Rightarrow>
          \<lparr>job_id = i, profile_id = p, scraper_engine = e, created_at = c,
           job_parts = [json_build_object sjp. (sj, sjp) \<leftarrow> rows, group_key sj = k]\<rparr>) ks"
  by (induction ks) auto

lemma group_row:
  assumes "distinct (map sj_id (scrape_jobs d))" and "sj \<in> set (scrape_jobs d)"
    and "sj_status sj = ''undone''"
  shows "(case group_key sj of (i, p, e, c) \<Rightarrow>
            \<lparr>job_id = i, profile_id = p, scraper_engine = e, created_at = c,
             job_parts = [json_build_object sjp. (s, sjp) \<leftarrow> joined_rows d,
                            group_key s = group_key sj]\<rparr>)
         = \<lparr>job_id = sj_id sj, profile_id = sj_profile_id sj,
            scraper_engine = sj_scraper_engine sj, created_at = sj_created_at sj,
            job_parts = [json_build_object sjp. sjp \<leftarrow> scrape_job_parts d,
                           sjp_job_id sjp = sj_id sj \<and> sjp_status sjp = ''undone'']\<rparr>"
  unfolding parts_of_group [OF assms] by (simp add: group_key_def)

lemmas row_defs = rowX_def rowY_def partX1_def partX2_def partY1_def JobX_def JobY_def

lemma fetched_empty: "get_undone_scrape_jobs db_empty = []"
  by (simp add: get_undone_scrape_jobs_def joined_rows_def db_empty_def)

lemma fetched_X: "get_undone_scrape_jobs db_X = [JobX]"
  by (simp add: get_undone_scrape_jobs_def joined_rows_def db_X_def group_key_def
        json_build_object_def row_defs)

lemma fetched_XY: "get_undone_scrape_jobs db_XY = [JobX, JobY]"
  by (simp add: get_undone_scrape_jobs_def joined_rows_def db_XY_def group_key_def
        json_build_object_def row_defs)

text \<open>
  C6. The claim reads: the fetch returns exactly the jobs whose own status is eligible
  and all of whose sub-items are eligible, each with its sub-item list, by creation
  time ascending. The query filters the joined rows, not the jobs: an \<^verbatim>\<open>undone\<close> job
  is returned as soon as one of its parts is \<^verbatim>\<open>undone\<close>, and it carries only those
  parts. Here job X is returned with part X1 although its part X2 is \<^verbatim>\<open>done\<close>.
\<close>

theorem C6_counterexample:
  "get_undone_scrape_jobs
     \<lparr>scrape_jobs =
        [\<lparr>sj_id = ''X'', sj_profile_id = ''P'', sj_scraper_engine = ''maps'',
          sj_created_at = 1, sj_status = ''undone''\<rparr>],
      scrape_job_parts =
        [\<lparr>sjp_id = ''X1'', sjp_job_id = ''X'', sjp_postcode = Some ''LS1'',
          sjp_keyword = Some ''cafe'', sjp_city = None, sjp_state = None,
          sjp_country = None, sjp_status = ''undone''\<rparr>,
         \<lparr>sjp_id = ''X2'', sjp_job_id = ''X'', sjp_postcode = Some ''LS2'',
          sjp_keyword = Some ''cafe'', sjp_city = None, sjp_state = None,
          sjp_country = None, sjp_status = ''done''\<rparr>]\<rparr>
   = [\<lparr>job_id = ''X'', profile_id = ''P'', scraper_engine = ''maps'', created_at = 1,
       job_parts = [\<lparr>part_id = ''X1'', postcode = Some ''LS1'', keyword = Some ''cafe'',
                     city = None, state = None, country = None\<rparr>]\<rparr>]"
  using fetched_X by (simp add: db_X_def row_defs)

text \<open>
  C6, as the query has it. With \<^verbatim>\<open>id\<close> a key of \<^verbatim>\<open>scrape_jobs\<close>: the rows returned
  are exactly, once each, the jobs with status \<^verbatim>\<open>undone\<close> that have at least one
  part with status \<^verbatim>\<open>undone\<close>; each carries the list of its \<^verbatim>\<open>undone\<close> parts and
  no other part; the rows are in ascending order of \<^verbatim>\<open>created_at\<close>.
\<close>

theorem C6_fetch_undone_jobs:
  assumes "distinct (map sj_id (scrape_jobs d))"
  shows "set (get_undone_scrape_jobs d) =
           {\<lparr>job_id = sj_id sj, profile_id = sj_profile_id sj,
             scraper_engine = sj_scraper_engine sj, created_at = sj_created_at sj,
             job_parts = [json_build_object sjp. sjp \<leftarrow> scrape_job_parts d,
                            sjp_job_id sjp = sj_id sj \<and> sjp_status sjp = ''undone'']\<rparr> | sj.
              sj \<in> set (scrape_jobs d) \<and> sj_status sj = ''undone'' \<and>
              (\<exists>sjp \<in> set (scrape_job_parts d).
                 sjp_job_id sjp = sj_id sj \<and> sjp_status sjp = ''undone'')}
         \<and> distinct (get_undone_scrape_jobs d)
         \<and> sorted (map created_at (get_undone_scrape_jobs d))"
proof -
  let ?rows = "joined_rows d"
  let ?ks = "remdups (map (\<lambda>r. group_key (fst r)) ?rows)"
  let ?mk = "\<lambda>k. case k of (i, p, e, c) \<Rightarrow>
          \<lparr>job_id = i, profile_id = p, scraper_engine = e, created_at = c,
           job_parts = [json_build_object sjp. (sj, sjp) \<leftarrow> ?rows, group_key sj = k]\<rparr>"
  let ?row = "\<lambda>sj. \<lparr>job_id = sj_id sj, profile_id = sj_profile_id sj,
             scraper_engine = sj_scraper_engine sj, created_at = sj_created_at sj,
             job_parts = [json_build_object sjp. sjp \<leftarrow> scrape_job_parts d,
                            sjp_job_id sjp = sj_id sj \<and> sjp_status sjp = ''undone'']\<rparr>"
  let ?S = "{sj \<in> set (scrape_jobs d). sj_status sj = ''undone'' \<and>
              (\<exists>sjp \<in> set (scrape_job_parts d).
                 sjp_job_id sjp = sj_id sj \<and> sjp_status sjp = ''undone'')}"
  have res: "get_undone_scrape_jobs d = sort_key created_at (map ?mk ?ks)"
    unfolding get_undone_scrape_jobs_def Let_def unsorted_rows ..
  have keys: "set ?ks = group_key ` ?S"
    by (force simp: set_joined_rows image_iff)
  have mk: "?mk (group_key sj) = ?row sj"
    if "sj \<in> set (scrape_jobs d)" "sj_status sj = ''undone''" for sj
    using group_row [OF assms that] .
  have "set (get_undone_scrape_jobs d) = ?mk ` set ?ks"
    by (simp add: res)
  also have "\<dots> = (\<lambda>sj. ?mk (group_key sj)) ` ?S"
    by (simp only: keys image_image)
  also have "\<dots> = ?row ` ?S"
    by (rule image_cong) (simp_all add: mk)
  also have "\<dots> = {?row sj | sj. sj \<in> set (scrape_jobs d) \<and> sj_status sj = ''undone'' \<and>
              (\<exists>sjp \<in> set (scrape_job_parts d).
                 sjp_job_id sjp = sj_id sj \<and> sjp_status sjp = ''undone'')}"
    by blast
  finally have A: "set (get_undone_scrape_jobs d) =
      {?row sj | sj. sj \<in> set (scrape_jobs d) \<and> sj_status sj = ''undone'' \<and>
              (\<exists>sjp \<in> set (scrape_job_parts d).
                 sjp_job_id sjp = sj_id sj \<and> sjp_status sjp = ''undone'')}" .
  have "inj_on ?mk (set ?ks)"
    by (rule inj_onI) (auto split: prod.splits)
  then have B: "distinct (get_undone_scrape_jobs d)"
    by (simp add: res distinct_map)
  have C: "sorted (map created_at (get_undone_scrape_jobs d))"
    by (simp add: res)
  from A B C show ?thesis by blast
qed

text \<open>The fetch on the store with jobs X and Y: Y comes first in the table and X was
  created first; X is returned first, with its one \<^verbatim>\<open>undone\<close> part.\<close>

theorem C6_fetch_undone_jobs_witness:
  "distinct (map sj_id (scrape_jobs db_XY)) \<and>
   get_undone_scrape_jobs db_XY = [JobX, JobY] \<and>
   set (get_undone_scrape_jobs db_XY) =
     {\<lparr>job_id = sj_id sj, profile_id = sj_profile_id sj,
       scraper_engine = sj_scraper_engine sj, created_at = sj_created_at sj,
       job_parts = [json_build_object sjp. sjp \<leftarrow> scrape_job_parts db_XY,
                      sjp_job_id sjp = sj_id sj \<and> sjp_status sjp = ''undone'']\<rparr> | sj.
        sj \<in> set (scrape_jobs db_XY) \<and> sj_status sj = ''undone'' \<and>
        (\<exists>sjp \<in> set (scrape_job_parts db_XY).
           sjp_job_id sjp = sj_id sj \<and> sjp_status sjp = ''undone'')} \<and>
   distinct (get_undone_scrape_jobs db_XY) \<and>
   sorted (map created_at (get_undone_scrape_jobs db_XY))"
proof -
  have d: "distinct (map sj_id (scrape_jobs db_XY))"
    by (simp add: db_XY_def row_defs)
  from C6_fetch_undone_jobs [OF d] d fetched_XY show ?thesis
    by blast
qed

section \<open>Facts about the edge function\<close>

lemmas step_defs = try_body_def fetch_def update_scrape_jobs_def update_scrape_job_parts_def
  store_update_def Let_def

text \<open>\<^verbatim>\<open>jobData\<close> has the fields of the job, so the payload is the job.\<close>

lemma jobData_eq:
  "\<lparr>job_id = job_id job, profile_id = profile_id job, scraper_engine = scraper_engine job,
    created_at = created_at job, job_parts = job_parts job\<rparr> = job"
  by simp

lemma string_of_nat_0: "string_of_nat 0 = ''0''"
  by (simp add: string_of_nat.simps digit_char_def)

lemma string_of_nat_1: "string_of_nat (Suc 0) = ''1''"
  by (simp add: string_of_nat.simps digit_char_def)

lemma string_of_nat_503: "string_of_nat 503 = ''503''"
  by (simp add: string_of_nat.simps digit_char_def)


text \<open>The calls one run of the \<^verbatim>\<open>try\<close> block makes: the submission; then possibly
  the update of the job; then, only after that update went through, the update of the
  parts.\<close>

lemma try_body_trace:
  "try_body x u job st = (res, st') \<Longrightarrow>
     (let f = Fetch (submit_url u) job;
          c1 = UpdateScrapeJobs ''ongoing'' (job_id job);
          c2 = UpdateScrapeJobParts ''ongoing'' (job_id job) in
      trace st' = trace st @ [f] \<or>
      trace st' = trace st @ [f, c1] \<or>
      trace st' = trace st @ [f, c1, c2] \<and> store_fault x (trace st @ [f]) c1 = None)"
  unfolding step_defs jobData_eq
  by (auto split: sum.splits if_splits option.splits fault.splits)

lemma try_body_Processed_id:
  "try_body x u job st = (Inr (Processed p), st') \<Longrightarrow> pj_job_id p = job_id job"
  unfolding step_defs
  by (auto split: sum.splits if_splits option.splits fault.splits)

lemma try_body_Failed_id:
  "try_body x u job st = (Inr (Failed f), st') \<Longrightarrow> fj_job_id f = job_id job"
  unfolding step_defs
  by (auto split: sum.splits if_splits option.splits fault.splits)

text \<open>Every iteration adds exactly one entry, for its job, to one of the two lists.\<close>

lemma process_job_counts:
  "process_job x u job (P, F) st = ((P', F'), st') \<Longrightarrow>
     length P' + length F' = Suc (length P + length F) \<and>
     mset (map pj_job_id P') + mset (map fj_job_id F') =
       add_mset (job_id job) (mset (map pj_job_id P) + mset (map fj_job_id F))"
  unfolding process_job_def
  by (auto split: prod.splits sum.splits job_result.splits
           dest: try_body_Processed_id try_body_Failed_id)

lemma for_jobs_counts:
  "for_jobs x u jobs (P, F) st = ((P', F'), st') \<Longrightarrow>
     length P' + length F' = length P + length F + length jobs \<and>
     mset (map pj_job_id P') + mset (map fj_job_id F') =
       mset (map pj_job_id P) + mset (map fj_job_id F) + mset (map job_id jobs)"
proof (induction jobs arbitrary: P F st)
  case Nil
  then show ?case by simp
next
  case (Cons job jobs)
  obtain P1 F1 st1 where step: "process_job x u job (P, F) st = ((P1, F1), st1)"
    by (metis surj_pair)
  with Cons.prems have rest: "for_jobs x u jobs (P1, F1) st1 = ((P', F'), st')"
    by simp
  from process_job_counts [OF step] Cons.IH [OF rest] show ?case
    by simp
qed

text \<open>The pass when the two guarded variables are set, the client is built and the
  fetch of the batch goes through.\<close>

lemma try_pass_ok:
  assumes "\<not> falsy_str (env x ''SERVICE_ROLE_KEY'')"
    and "\<not> falsy_str (env x ''REDIS_URL'')"
    and "createClient x (env x ''SUPABASE_URL'') (env x ''SERVICE_ROLE_KEY'') = Inr c"
    and "store_fault x (trace st) (Rpc ''get_undone_scrape_jobs'') = None"
  shows "try_pass x st =
           (let jobs = get_undone_scrape_jobs (db st);
                st1 = st\<lparr>trace := trace st @ [Rpc ''get_undone_scrape_jobs'']\<rparr> in
            if jobs = [] then
              (Inr \<lparr>resp_status = 200, resp_headers = json_headers,
                    resp_body = NoJobs ''No undone jobs found'' (now x)\<rparr>, st1)
            else
              (case for_jobs x (env x ''REDIS_URL'') jobs ([], []) st1 of
                 ((processedJobs, failedJobs), st2) \<Rightarrow>
                   (Inr \<lparr>resp_status = 200, resp_headers = json_headers,
                         resp_body =
                           Summary True
                             (''Processed '' @ string_of_nat (length processedJobs)
                              @ '' jobs successfully, '' @ string_of_nat (length failedJobs)
                              @ '' failed'')
                             processedJobs failedJobs (length jobs) (now x)\<rparr>, st2)))"
  using assms by (simp add: try_pass_def rpc_get_undone_scrape_jobs_def Let_def)

lemma try_pass_rpc_fault:
  assumes "\<not> falsy_str (env x ''SERVICE_ROLE_KEY'')"
    and "\<not> falsy_str (env x ''REDIS_URL'')"
    and "createClient x (env x ''SUPABASE_URL'') (env x ''SERVICE_ROLE_KEY'') = Inr c"
    and "store_fault x (trace st) (Rpc ''get_undone_scrape_jobs'') = Some flt"
  shows "try_pass x st =
           (Inl (case flt of Rejects e \<Rightarrow> e | ErrorResult queryError \<Rightarrow> queryError),
            st\<lparr>trace := trace st @ [Rpc ''get_undone_scrape_jobs'']\<rparr>)"
  using assms by (cases flt) (simp_all add: try_pass_def rpc_get_undone_scrape_jobs_def Let_def)

lemma try_pass_config:
  "falsy_str (env x ''SERVICE_ROLE_KEY'') \<or> falsy_str (env x ''REDIS_URL'') \<or>
   isl (createClient x (env x ''SUPABASE_URL'') (env x ''SERVICE_ROLE_KEY'')) \<Longrightarrow>
   \<exists>e. try_pass x st = (Inl e, st)"
  by (auto simp: try_pass_def Let_def isl_def)

text \<open>The concrete outside used in the examples.\<close>

lemma env_all_values:
  "env_all ''SUPABASE_URL'' = Some ''https://db.example''"
  "env_all ''SERVICE_ROLE_KEY'' = Some ''secret''"
  "env_all ''REDIS_URL'' = Some ''http://flask:5000''"
  by (simp_all add: env_all_def)

lemma submit_url_flask:
  "submit_url (Some ''http://flask:5000'') = ''http://flask:5000/api/jobs/submit''"
  by (simp add: submit_url_def template_str_def)

lemma outside_fields:
  "env (outside e cc sf fr) = e"
  "createClient (outside e cc sf fr) = cc"
  "store_fault (outside e cc sf fr) = sf"
  "fetch_reply (outside e cc sf fr) = fr"
  "now (outside e cc sf fr) = ''2025-01-01T00:00:00.000Z''"
  by (simp_all add: outside_def)

lemma start_fields: "db (start d) = d" "trace (start d) = []"
  by (simp_all add: start_def)

lemma post_method: "req_method post \<noteq> ''OPTIONS''"
  by (simp add: post_def)

lemma config_all:
  "\<not> falsy_str (env_all ''SERVICE_ROLE_KEY'')"
  "\<not> falsy_str (env_all ''REDIS_URL'')"
  by (simp_all add: env_all_values falsy_str_def)

text \<open>
  C7. When the fetched batch is empty, the answer is status 200 with the message
  \<^verbatim>\<open>No undone jobs found\<close>; the body has no outcome entries; the only call made to
  the outside is the fetch of the batch (no submission to the executor, no update of
  the store), and the store is as it was.
\<close>

theorem C7_empty_batch_short_circuit:
  assumes "req_method req \<noteq> ''OPTIONS''"
    and "\<not> falsy_str (env x ''SERVICE_ROLE_KEY'')"
    and "\<not> falsy_str (env x ''REDIS_URL'')"
    and "createClient x (env x ''SUPABASE_URL'') (env x ''SERVICE_ROLE_KEY'') = Inr c"
    and "store_fault x (trace st) (Rpc ''get_undone_scrape_jobs'') = None"
    and "get_undone_scrape_jobs (db st) = []"
  shows "serve x req st =
           (\<lparr>resp_status = 200, resp_headers = json_headers,
             resp_body = NoJobs ''No undone jobs found'' (now x)\<rparr>,
            st\<lparr>trace := trace st @ [Rpc ''get_undone_scrape_jobs'']\<rparr>)"
  using assms(1,6) by (simp add: serve_def try_pass_ok [OF assms(2-5)])

theorem C7_empty_batch_short_circuit_witness:
  "serve (outside env_all client_strict no_fault (always accepted)) post (start db_empty) =
     (\<lparr>resp_status = 200, resp_headers = json_headers,
       resp_body = NoJobs ''No undone jobs found'' ''2025-01-01T00:00:00.000Z''\<rparr>,
      \<lparr>db = db_empty, trace = [Rpc ''get_undone_scrape_jobs'']\<rparr>)"
proof -
  let ?x = "outside env_all client_strict no_fault (always accepted)"
  have k: "\<not> falsy_str (env ?x ''SERVICE_ROLE_KEY'')" and u: "\<not> falsy_str (env ?x ''REDIS_URL'')"
    by (simp_all add: outside_fields config_all)
  have cc: "createClient ?x (env ?x ''SUPABASE_URL'') (env ?x ''SERVICE_ROLE_KEY'') = Inr ()"
    by (simp add: outside_fields env_all_values client_strict_def falsy_str_def)
  have sf: "store_fault ?x (trace (start db_empty)) (Rpc ''get_undone_scrape_jobs'') = None"
    by (simp add: outside_fields no_fault_def)
  have b: "get_undone_scrape_jobs (db (start db_empty)) = []"
    by (simp add: start_fields fetched_empty)
  from C7_empty_batch_short_circuit [OF post_method k u cc sf b] show ?thesis
    by (simp add: outside_fields start_def)
qed

text \<open>
  C8. A batch of one job X to which the executor answers 503 with body
  \<^verbatim>\<open>overloaded\<close>: the summary has no succeeded entry and exactly one failed entry,
  for X, with the detail \<^verbatim>\<open>Flask API error (503): overloaded\<close>. After the fetch of
  the batch the only call is the one submission (no second attempt, no store update),
  and the store is as it was.
\<close>

theorem C8_scenario_B_503:
  assumes "req_method req \<noteq> ''OPTIONS''"
    and "\<not> falsy_str (env x ''SERVICE_ROLE_KEY'')"
    and "\<not> falsy_str (env x ''REDIS_URL'')"
    and "createClient x (env x ''SUPABASE_URL'') (env x ''SERVICE_ROLE_KEY'') = Inr c"
    and "store_fault x (trace st) (Rpc ''get_undone_scrape_jobs'') = None"
    and "get_undone_scrape_jobs (db st) = [jobX]"
    and "fetch_reply x (trace st @ [Rpc ''get_undone_scrape_jobs''])
           (submit_url (env x ''REDIS_URL'')) jobX = Inr r"
    and "status r = 503"
    and "body_text r = Inr ''overloaded''"
  shows "serve x req st =
           (\<lparr>resp_status = 200, resp_headers = json_headers,
             resp_body = Summary True ''Processed 0 jobs successfully, 1 failed'' []
                           [\<lparr>fj_job_id = job_id jobX,
                             fj_error = ''Flask API error (503): overloaded''\<rparr>]
                           1 (now x)\<rparr>,
            st\<lparr>trace := trace st @ [Rpc ''get_undone_scrape_jobs'',
                                    Fetch (submit_url (env x ''REDIS_URL'')) jobX]\<rparr>)"
proof -
  let ?st1 = "st\<lparr>trace := trace st @ [Rpc ''get_undone_scrape_jobs'']\<rparr>"
  have "try_body x (env x ''REDIS_URL'') jobX ?st1 =
          (Inr (Failed \<lparr>fj_job_id = job_id jobX, fj_error = ''Flask API error (503): overloaded''\<rparr>),
           ?st1\<lparr>trace := trace ?st1 @ [Fetch (submit_url (env x ''REDIS_URL'')) jobX]\<rparr>)"
    using assms(7-9) by (simp add: step_defs jobData_eq ok_def string_of_nat_503)
  then have "for_jobs x (env x ''REDIS_URL'') [jobX] ([], []) ?st1 =
          (([], [\<lparr>fj_job_id = job_id jobX, fj_error = ''Flask API error (503): overloaded''\<rparr>]),
           ?st1\<lparr>trace := trace ?st1 @ [Fetch (submit_url (env x ''REDIS_URL'')) jobX]\<rparr>)"
    by (simp add: process_job_def)
  with assms(1,6) show ?thesis
    by (simp add: serve_def try_pass_ok [OF assms(2-5)] string_of_nat_0 string_of_nat_1)
qed

theorem C8_scenario_B_503_witness:
  "serve (outside env_all client_strict no_fault (always busy)) post (start db_X) =
     (\<lparr>resp_status = 200, resp_headers = json_headers,
       resp_body = Summary True ''Processed 0 jobs successfully, 1 failed'' []
                     [\<lparr>fj_job_id = ''X'', fj_error = ''Flask API error (503): overloaded''\<rparr>]
                     1 ''2025-01-01T00:00:00.000Z''\<rparr>,
      \<lparr>db = db_X,
        trace = [Rpc ''get_undone_scrape_jobs'', Fetch ''http://flask:5000/api/jobs/submit'' JobX]\<rparr>)"
proof -
  let ?x = "outside env_all client_strict no_fault (always busy)"
  have k: "\<not> falsy_str (env ?x ''SERVICE_ROLE_KEY'')" and u: "\<not> falsy_str (env ?x ''REDIS_URL'')"
    by (simp_all add: outside_fields config_all)
  have cc: "createClient ?x (env ?x ''SUPABASE_URL'') (env ?x ''SERVICE_ROLE_KEY'') = Inr ()"
    by (simp add: outside_fields env_all_values client_strict_def falsy_str_def)
  have sf: "store_fault ?x (trace (start db_X)) (Rpc ''get_undone_scrape_jobs'') = None"
    by (simp add: outside_fields no_fault_def)
  have b: "get_undone_scrape_jobs (db (start db_X)) = [JobX]"
    by (simp add: start_fields fetched_X)
  have r: "fetch_reply ?x (trace (start db_X) @ [Rpc ''get_undone_scrape_jobs''])
             (submit_url (env ?x ''REDIS_URL'')) JobX = Inr busy"
    by (simp add: outside_fields always_def)
  have s: "status busy = 503" and t: "body_text busy = Inr ''overloaded''"
    by (simp_all add: busy_def)
  from C8_scenario_B_503 [OF post_method k u cc sf b r s t] show ?thesis
    by (simp add: outside_fields start_def env_all_values submit_url_flask JobX_def)
qed



text \<open>
  C4. The calls of one iteration are the submission alone, or the submission and the
  update of the job, or these two and the update of the parts; the last only when the
  update of the job went through. When the update of the job fails, the iteration
  stops after it with one failed entry for the job: with detail
  \<^verbatim>\<open>DB update error:\<close> and the store's message when the store answered with an
  error, with the message of the exception when the call threw.
\<close>

theorem C4_parts_update_only_after_job_update:
  "(let f = Fetch (submit_url u) job;
        c1 = UpdateScrapeJobs ''ongoing'' (job_id job);
        c2 = UpdateScrapeJobParts ''ongoing'' (job_id job);
        t' = trace (snd (process_job x u job (P, F) st)) in
    t' = trace st @ [f] \<or>
    t' = trace st @ [f, c1] \<or>
    t' = trace st @ [f, c1, c2] \<and> store_fault x (trace st @ [f]) c1 = None) \<and>
   (fetch_reply x (trace st) (submit_url u) job = Inr r \<and> ok r \<and>
    body_json r = Inr flaskResult \<and> get_prop flaskResult ''success'' = Inr success \<and>
    truthy success \<and>
    store_fault x (trace st @ [Fetch (submit_url u) job])
      (UpdateScrapeJobs ''ongoing'' (job_id job)) = Some flt \<longrightarrow>
    process_job x u job (P, F) st =
      ((P, F @ [\<lparr>fj_job_id = job_id job,
                 fj_error = (case flt of
                               ErrorResult updateJobError \<Rightarrow>
                                 ''DB update error: '' @ message updateJobError
                             | Rejects jobError \<Rightarrow> message jobError)\<rparr>]),
       st\<lparr>trace := trace st @ [Fetch (submit_url u) job,
                               UpdateScrapeJobs ''ongoing'' (job_id job)]\<rparr>))"
proof (intro conjI impI)
  obtain res st' where tb: "try_body x u job st = (res, st')"
    by (metis surj_pair)
  then have "snd (process_job x u job (P, F) st) = st'"
    by (simp add: process_job_def split: sum.splits job_result.splits)
  with try_body_trace [OF tb]
  show "let f = Fetch (submit_url u) job;
        c1 = UpdateScrapeJobs ''ongoing'' (job_id job);
        c2 = UpdateScrapeJobParts ''ongoing'' (job_id job);
        t' = trace (snd (process_job x u job (P, F) st)) in
    t' = trace st @ [f] \<or>
    t' = trace st @ [f, c1] \<or>
    t' = trace st @ [f, c1, c2] \<and> store_fault x (trace st @ [f]) c1 = None"
    by (simp add: Let_def)
next
  assume "fetch_reply x (trace st) (submit_url u) job = Inr r \<and> ok r \<and>
    body_json r = Inr flaskResult \<and> get_prop flaskResult ''success'' = Inr success \<and>
    truthy success \<and>
    store_fault x (trace st @ [Fetch (submit_url u) job])
      (UpdateScrapeJobs ''ongoing'' (job_id job)) = Some flt"
  then show "process_job x u job (P, F) st =
      ((P, F @ [\<lparr>fj_job_id = job_id job,
                 fj_error = (case flt of
                               ErrorResult updateJobError \<Rightarrow>
                                 ''DB update error: '' @ message updateJobError
                             | Rejects jobError \<Rightarrow> message jobError)\<rparr>]),
       st\<lparr>trace := trace st @ [Fetch (submit_url u) job,
                               UpdateScrapeJobs ''ongoing'' (job_id job)]\<rparr>)"
    by (cases flt) (simp_all add: process_job_def step_defs jobData_eq)
qed

theorem C4_parts_update_only_after_job_update_witness:
  "process_job (outside env_all client_strict jobs_update_denied (always accepted))
     (Some ''http://flask:5000'') JobX ([], []) (start db_X) =
     (([], [\<lparr>fj_job_id = ''X'', fj_error = ''DB update error: permission denied''\<rparr>]),
      \<lparr>db = db_X, trace = [Fetch ''http://flask:5000/api/jobs/submit'' JobX,
                           UpdateScrapeJobs ''ongoing'' ''X'']\<rparr>)"
proof -
  let ?x = "outside env_all client_strict jobs_update_denied (always accepted)"
  let ?v = "JObj [(''success'', JBool True), (''queued'', JNum ''1'')]"
  have h: "fetch_reply ?x (trace (start db_X)) (submit_url (Some ''http://flask:5000'')) JobX
             = Inr accepted \<and> ok accepted \<and> body_json accepted = Inr ?v \<and>
           get_prop ?v ''success'' = Inr (Some (JBool True)) \<and> truthy (Some (JBool True)) \<and>
           store_fault ?x (trace (start db_X) @ [Fetch (submit_url (Some ''http://flask:5000'')) JobX])
             (UpdateScrapeJobs ''ongoing'' (job_id JobX))
             = Some (ErrorResult (Error ''permission denied''))"
    by (simp add: outside_fields always_def ok_def accepted_def jobs_update_denied_def)
  from C4_parts_update_only_after_job_update
         [of "Some ''http://flask:5000''" JobX ?x "[]" "[]" "start db_X" accepted ?v
             "Some (JBool True)" "ErrorResult (Error ''permission denied'')"] h
  show ?thesis
    by (simp add: start_def submit_url_flask JobX_def)
qed




text \<open>
  C9. When the executor accepts a job and both updates go through, the update of the
  parts sets \<^verbatim>\<open>status\<close> to \<^verbatim>\<open>ongoing\<close> in every row of \<^verbatim>\<open>scrape_job_parts\<close>
  whose \<^verbatim>\<open>job_id\<close> is the job's, whatever the status of the row was, and changes no
  other row: the update is keyed by the job identifier alone, so it reaches parts that
  were not in the fetched batch.
\<close>

theorem C9_parts_update_scoped_by_job_id:
  assumes "fetch_reply x (trace st) (submit_url u) job = Inr r"
    and "ok r"
    and "body_json r = Inr flaskResult"
    and "get_prop flaskResult ''success'' = Inr success"
    and "truthy success"
    and "store_fault x (trace st @ [Fetch (submit_url u) job])
           (UpdateScrapeJobs ''ongoing'' (job_id job)) = None"
    and "store_fault x
           (trace st @ [Fetch (submit_url u) job, UpdateScrapeJobs ''ongoing'' (job_id job)])
           (UpdateScrapeJobParts ''ongoing'' (job_id job)) = None"
  shows "scrape_job_parts (db (snd (try_body x u job st))) =
           map (\<lambda>sjp. if sjp_job_id sjp = job_id job then sjp\<lparr>sjp_status := ''ongoing''\<rparr> else sjp)
             (scrape_job_parts (db st))
         \<and> (\<forall>sjp \<in> set (scrape_job_parts (db (snd (try_body x u job st)))).
               sjp_job_id sjp = job_id job \<longrightarrow> sjp_status sjp = ''ongoing'')"
proof -
  have A: "scrape_job_parts (db (snd (try_body x u job st))) =
           map (\<lambda>sjp. if sjp_job_id sjp = job_id job then sjp\<lparr>sjp_status := ''ongoing''\<rparr> else sjp)
             (scrape_job_parts (db st))"
    using assms
    by (simp add: step_defs jobData_eq set_scrape_jobs_status_def set_scrape_job_parts_status_def)
  show ?thesis unfolding A by auto
qed

text \<open>Job X is fetched with its part X1 only; its part X2, already \<^verbatim>\<open>done\<close>, is set
  to \<^verbatim>\<open>ongoing\<close> as well.\<close>

theorem C9_parts_update_scoped_by_job_id_witness:
  "job_parts JobX = [json_build_object partX1] \<and>
   scrape_job_parts (db (start db_X)) = [partX1, partX2] \<and>
   sjp_status partX2 = ''done'' \<and>
   scrape_job_parts
     (db (snd (try_body (outside env_all client_strict no_fault (always accepted))
                 (Some ''http://flask:5000'') JobX (start db_X)))) =
     [partX1\<lparr>sjp_status := ''ongoing''\<rparr>, partX2\<lparr>sjp_status := ''ongoing''\<rparr>]"
proof -
  let ?x = "outside env_all client_strict no_fault (always accepted)"
  let ?u = "Some ''http://flask:5000''"
  let ?v = "JObj [(''success'', JBool True), (''queued'', JNum ''1'')]"
  have r: "fetch_reply ?x (trace (start db_X)) (submit_url ?u) JobX = Inr accepted"
    by (simp add: outside_fields always_def)
  have o: "ok accepted"
    by (simp add: ok_def accepted_def)
  have j: "body_json accepted = Inr ?v"
    by (simp add: accepted_def)
  have s: "get_prop ?v ''success'' = Inr (Some (JBool True))"
    by simp
  have t: "truthy (Some (JBool True))"
    by simp
  have f1: "store_fault ?x (trace (start db_X) @ [Fetch (submit_url ?u) JobX])
              (UpdateScrapeJobs ''ongoing'' (job_id JobX)) = None"
    and f2: "store_fault ?x
              (trace (start db_X) @ [Fetch (submit_url ?u) JobX,
                                     UpdateScrapeJobs ''ongoing'' (job_id JobX)])
              (UpdateScrapeJobParts ''ongoing'' (job_id JobX)) = None"
    by (simp_all add: outside_fields no_fault_def)
  from C9_parts_update_scoped_by_job_id [OF r o j s t f1 f2]
  have "scrape_job_parts (db (snd (try_body ?x ?u JobX (start db_X)))) =
           map (\<lambda>sjp. if sjp_job_id sjp = job_id JobX then sjp\<lparr>sjp_status := ''ongoing''\<rparr> else sjp)
             (scrape_job_parts (db (start db_X)))"
    by blast
  then show ?thesis
    by (simp add: start_fields db_X_def JobX_def json_build_object_def partX1_def partX2_def)
qed

text \<open>
  C2. When the fetch of the batch goes through with a batch that is not empty, the
  summary holds one entry for every fetched job, in one of its two lists: the two
  counts add up to \<^verbatim>\<open>total_found\<close>, the number of jobs fetched, and the job identifiers
  of the entries are those of the batch, each as often as it is in the batch. (An empty
  batch is answered without a summary, see C7.)
\<close>

theorem C2_one_outcome_per_job:
  assumes "req_method req \<noteq> ''OPTIONS''"
    and "\<not> falsy_str (env x ''SERVICE_ROLE_KEY'')"
    and "\<not> falsy_str (env x ''REDIS_URL'')"
    and "createClient x (env x ''SUPABASE_URL'') (env x ''SERVICE_ROLE_KEY'') = Inr c"
    and "store_fault x (trace st) (Rpc ''get_undone_scrape_jobs'') = None"
    and "get_undone_scrape_jobs (db st) = jobs"
    and "jobs \<noteq> []"
  shows "\<exists>processedJobs failedJobs.
           resp_body (fst (serve x req st)) =
             Summary True
               (''Processed '' @ string_of_nat (length processedJobs) @ '' jobs successfully, ''
                @ string_of_nat (length failedJobs) @ '' failed'')
               processedJobs failedJobs (length jobs) (now x) \<and>
           length processedJobs + length failedJobs = length jobs \<and>
           mset (map pj_job_id processedJobs) + mset (map fj_job_id failedJobs) =
             mset (map job_id jobs)"
proof -
  let ?st1 = "st\<lparr>trace := trace st @ [Rpc ''get_undone_scrape_jobs'']\<rparr>"
  obtain P F st2 where loop: "for_jobs x (env x ''REDIS_URL'') jobs ([], []) ?st1 = ((P, F), st2)"
    by (metis surj_pair)
  from for_jobs_counts [OF loop]
  have "length P + length F = length jobs"
    and "mset (map pj_job_id P) + mset (map fj_job_id F) = mset (map job_id jobs)"
    by simp_all
  moreover from assms(1,6,7) loop
  have "resp_body (fst (serve x req st)) =
          Summary True
            (''Processed '' @ string_of_nat (length P) @ '' jobs successfully, ''
             @ string_of_nat (length F) @ '' failed'')
            P F (length jobs) (now x)"
    by (simp add: serve_def try_pass_ok [OF assms(2-5)])
  ultimately show ?thesis by blast
qed

theorem C2_one_outcome_per_job_witness:
  "\<exists>processedJobs failedJobs.
     resp_body (fst (serve (outside env_all client_strict no_fault (always refused)) post
                       (start db_XY))) =
       Summary True
         (''Processed '' @ string_of_nat (length processedJobs) @ '' jobs successfully, ''
          @ string_of_nat (length failedJobs) @ '' failed'')
         processedJobs failedJobs 2 ''2025-01-01T00:00:00.000Z'' \<and>
     length processedJobs + length failedJobs = 2 \<and>
     mset (map pj_job_id processedJobs) + mset (map fj_job_id failedJobs) = {#''X'', ''Y''#}"
proof -
  let ?x = "outside env_all client_strict no_fault (always refused)"
  have k: "\<not> falsy_str (env ?x ''SERVICE_ROLE_KEY'')" and u: "\<not> falsy_str (env ?x ''REDIS_URL'')"
    by (simp_all add: outside_fields config_all)
  have cc: "createClient ?x (env ?x ''SUPABASE_URL'') (env ?x ''SERVICE_ROLE_KEY'') = Inr ()"
    by (simp add: outside_fields env_all_values client_strict_def falsy_str_def)
  have sf: "store_fault ?x (trace (start db_XY)) (Rpc ''get_undone_scrape_jobs'') = None"
    by (simp add: outside_fields no_fault_def)
  have b: "get_undone_scrape_jobs (db (start db_XY)) = [JobX, JobY]"
    by (simp add: start_fields fetched_XY)
  have ne: "[JobX, JobY] \<noteq> []"
    by simp
  have ids: "map job_id [JobX, JobY] = [''X'', ''Y'']"
    by (simp add: JobX_def JobY_def)
  from C2_one_outcome_per_job [OF post_method k u cc sf b ne]
  obtain P F where
    "resp_body (fst (serve ?x post (start db_XY))) =
       Summary True
         (''Processed '' @ string_of_nat (length P) @ '' jobs successfully, ''
          @ string_of_nat (length F) @ '' failed'')
         P F (length [JobX, JobY]) (now ?x)"
    and "length P + length F = length [JobX, JobY]"
    and "mset (map pj_job_id P) + mset (map fj_job_id F) = mset (map job_id [JobX, JobY])"
    by blast
  then show ?thesis
    unfolding ids by (intro exI [of _ P] exI [of _ F]) (simp add: outside_fields)
qed

text \<open>
  C5. When the store endpoint, the store credential or the executor URL is absent (or
  empty), the pass aborts before any call to the store or the executor, so before the
  fetch of the batch, and the answer is status 500 with \<^verbatim>\<open>success: false\<close> and a
  message in place of a summary. The handler itself guards the credential and the
  executor URL, with the message \<^verbatim>\<open><NAME> environment variable is required\<close>. The
  store endpoint is checked by the client constructor of supabase-js, which throws on an
  absent or empty URL (the first hypothesis below says so of the constructor in use); the
  message is then the constructor's.
\<close>

theorem C5_missing_configuration:
  assumes "req_method req \<noteq> ''OPTIONS''"
    and "falsy_str (env x ''SUPABASE_URL'') \<longrightarrow>
           isl (createClient x (env x ''SUPABASE_URL'') (env x ''SERVICE_ROLE_KEY''))"
  shows "(falsy_str (env x ''SERVICE_ROLE_KEY'') \<longrightarrow>
            serve x req st =
              (\<lparr>resp_status = 500, resp_headers = json_headers,
                resp_body = Failure False ''SERVICE_ROLE_KEY environment variable is required''
                              (now x)\<rparr>,
               st)) \<and>
         (\<not> falsy_str (env x ''SERVICE_ROLE_KEY'') \<and> falsy_str (env x ''REDIS_URL'') \<longrightarrow>
            serve x req st =
              (\<lparr>resp_status = 500, resp_headers = json_headers,
                resp_body = Failure False ''REDIS_URL environment variable is required'' (now x)\<rparr>,
               st)) \<and>
         (\<not> falsy_str (env x ''SERVICE_ROLE_KEY'') \<and> \<not> falsy_str (env x ''REDIS_URL'') \<and>
          falsy_str (env x ''SUPABASE_URL'') \<longrightarrow>
            (\<exists>e. createClient x (env x ''SUPABASE_URL'') (env x ''SERVICE_ROLE_KEY'') = Inl e \<and>
               serve x req st =
                 (\<lparr>resp_status = 500, resp_headers = json_headers,
                   resp_body = Failure False (message e) (now x)\<rparr>,
                  st))) \<and>
         (falsy_str (env x ''SUPABASE_URL'') \<or> falsy_str (env x ''SERVICE_ROLE_KEY'') \<or>
          falsy_str (env x ''REDIS_URL'') \<longrightarrow>
            (\<exists>msg. serve x req st =
               (\<lparr>resp_status = 500, resp_headers = json_headers,
                 resp_body = Failure False msg (now x)\<rparr>,
                st)))"
proof -
  have A: "falsy_str (env x ''SERVICE_ROLE_KEY'') \<longrightarrow>
            serve x req st =
              (\<lparr>resp_status = 500, resp_headers = json_headers,
                resp_body = Failure False ''SERVICE_ROLE_KEY environment variable is required''
                              (now x)\<rparr>,
               st)"
    using assms(1) by (simp add: serve_def try_pass_def)
  have B: "\<not> falsy_str (env x ''SERVICE_ROLE_KEY'') \<and> falsy_str (env x ''REDIS_URL'') \<longrightarrow>
            serve x req st =
              (\<lparr>resp_status = 500, resp_headers = json_headers,
                resp_body = Failure False ''REDIS_URL environment variable is required'' (now x)\<rparr>,
               st)"
    using assms(1) by (simp add: serve_def try_pass_def)
  have C: "\<not> falsy_str (env x ''SERVICE_ROLE_KEY'') \<and> \<not> falsy_str (env x ''REDIS_URL'') \<and>
          falsy_str (env x ''SUPABASE_URL'') \<longrightarrow>
            (\<exists>e. createClient x (env x ''SUPABASE_URL'') (env x ''SERVICE_ROLE_KEY'') = Inl e \<and>
               serve x req st =
                 (\<lparr>resp_status = 500, resp_headers = json_headers,
                   resp_body = Failure False (message e) (now x)\<rparr>,
                  st))"
  proof (intro impI)
    assume h: "\<not> falsy_str (env x ''SERVICE_ROLE_KEY'') \<and> \<not> falsy_str (env x ''REDIS_URL'') \<and>
          falsy_str (env x ''SUPABASE_URL'')"
    with assms(2) obtain e where
      e: "createClient x (env x ''SUPABASE_URL'') (env x ''SERVICE_ROLE_KEY'') = Inl e"
      by (auto simp: isl_def)
    with h assms(1) have "serve x req st =
                 (\<lparr>resp_status = 500, resp_headers = json_headers,
                   resp_body = Failure False (message e) (now x)\<rparr>,
                  st)"
      by (simp add: serve_def try_pass_def)
    with e show "\<exists>e. createClient x (env x ''SUPABASE_URL'') (env x ''SERVICE_ROLE_KEY'') = Inl e \<and>
               serve x req st =
                 (\<lparr>resp_status = 500, resp_headers = json_headers,
                   resp_body = Failure False (message e) (now x)\<rparr>,
                  st)"
      by blast
  qed
  from A B C show ?thesis
    by blast
qed

text \<open>Scenario E (no executor URL), no credential, and no store endpoint: each is
  answered 500 and the log of calls stays empty.\<close>

theorem C5_missing_configuration_witness:
  "serve (outside env_no_redis_url client_strict no_fault (always accepted)) post (start db_XY) =
     (\<lparr>resp_status = 500, resp_headers = json_headers,
       resp_body = Failure False ''REDIS_URL environment variable is required''
                     ''2025-01-01T00:00:00.000Z''\<rparr>,
      \<lparr>db = db_XY, trace = []\<rparr>) \<and>
   serve (outside env_no_key client_strict no_fault (always accepted)) post (start db_XY) =
     (\<lparr>resp_status = 500, resp_headers = json_headers,
       resp_body = Failure False ''SERVICE_ROLE_KEY environment variable is required''
                     ''2025-01-01T00:00:00.000Z''\<rparr>,
      \<lparr>db = db_XY, trace = []\<rparr>) \<and>
   serve (outside env_no_supabase_url client_strict no_fault (always accepted)) post (start db_XY) =
     (\<lparr>resp_status = 500, resp_headers = json_headers,
       resp_body = Failure False ''supabaseUrl is required.'' ''2025-01-01T00:00:00.000Z''\<rparr>,
      \<lparr>db = db_XY, trace = []\<rparr>)"
proof -
  let ?x1 = "outside env_no_redis_url client_strict no_fault (always accepted)"
  let ?x2 = "outside env_no_key client_strict no_fault (always accepted)"
  let ?x3 = "outside env_no_supabase_url client_strict no_fault (always accepted)"
  have c1: "falsy_str (env ?x1 ''SUPABASE_URL'') \<longrightarrow>
              isl (createClient ?x1 (env ?x1 ''SUPABASE_URL'') (env ?x1 ''SERVICE_ROLE_KEY''))"
    and c2: "falsy_str (env ?x2 ''SUPABASE_URL'') \<longrightarrow>
              isl (createClient ?x2 (env ?x2 ''SUPABASE_URL'') (env ?x2 ''SERVICE_ROLE_KEY''))"
    and c3: "falsy_str (env ?x3 ''SUPABASE_URL'') \<longrightarrow>
              isl (createClient ?x3 (env ?x3 ''SUPABASE_URL'') (env ?x3 ''SERVICE_ROLE_KEY''))"
    by (simp_all add: outside_fields client_strict_def)
  have h1: "\<not> falsy_str (env ?x1 ''SERVICE_ROLE_KEY'') \<and> falsy_str (env ?x1 ''REDIS_URL'')"
    by (simp add: outside_fields env_no_redis_url_def falsy_str_def)
  have h2: "falsy_str (env ?x2 ''SERVICE_ROLE_KEY'')"
    by (simp add: outside_fields env_no_key_def falsy_str_def)
  have h3: "\<not> falsy_str (env ?x3 ''SERVICE_ROLE_KEY'') \<and> \<not> falsy_str (env ?x3 ''REDIS_URL'') \<and>
            falsy_str (env ?x3 ''SUPABASE_URL'')"
    by (simp add: outside_fields env_no_supabase_url_def falsy_str_def)
  have e3: "createClient ?x3 (env ?x3 ''SUPABASE_URL'') (env ?x3 ''SERVICE_ROLE_KEY'')
              = Inl (Error ''supabaseUrl is required.'')"
    by (simp add: outside_fields env_no_supabase_url_def falsy_str_def client_strict_def)
  from C5_missing_configuration [OF post_method c1, of "start db_XY"] h1
  have a: "serve ?x1 post (start db_XY) =
             (\<lparr>resp_status = 500, resp_headers = json_headers,
               resp_body = Failure False ''REDIS_URL environment variable is required'' (now ?x1)\<rparr>,
              start db_XY)"
    by blast
  from C5_missing_configuration [OF post_method c2, of "start db_XY"] h2
  have b: "serve ?x2 post (start db_XY) =
             (\<lparr>resp_status = 500, resp_headers = json_headers,
               resp_body = Failure False ''SERVICE_ROLE_KEY environment variable is required''
                             (now ?x2)\<rparr>,
              start db_XY)"
    by blast
  from C5_missing_configuration [OF post_method c3, of "start db_XY"] h3
  obtain e where "createClient ?x3 (env ?x3 ''SUPABASE_URL'') (env ?x3 ''SERVICE_ROLE_KEY'') = Inl e"
    and "serve ?x3 post (start db_XY) =
             (\<lparr>resp_status = 500, resp_headers = json_headers,
               resp_body = Failure False (message e) (now ?x3)\<rparr>,
              start db_XY)"
    by blast
  with e3 have c: "serve ?x3 post (start db_XY) =
             (\<lparr>resp_status = 500, resp_headers = json_headers,
               resp_body = Failure False ''supabaseUrl is required.'' (now ?x3)\<rparr>,
              start db_XY)"
    by simp
  show ?thesis
    unfolding a b c by (simp add: outside_fields start_def)
qed

text \<open>
  C10. The claim reads: whenever the configuration is there and the fetch of the batch
  goes through, the answer is status 200 with a top-level \<^verbatim>\<open>success: true\<close>. For an
  empty batch the answer is status 200 with a message and a timestamp only; its body
  has no \<^verbatim>\<open>success\<close> field.
\<close>

theorem C10_counterexample:
  "serve (outside env_all client_strict no_fault (always accepted)) \<lparr>req_method = ''POST''\<rparr>
     \<lparr>db = \<lparr>scrape_jobs = [], scrape_job_parts = []\<rparr>, trace = []\<rparr> =
     (\<lparr>resp_status = 200, resp_headers = json_headers,
       resp_body = NoJobs ''No undone jobs found'' ''2025-01-01T00:00:00.000Z''\<rparr>,
      \<lparr>db = \<lparr>scrape_jobs = [], scrape_job_parts = []\<rparr>,
        trace = [Rpc ''get_undone_scrape_jobs'']\<rparr>)"
  using fetched_empty
  by (simp add: serve_def try_pass_def rpc_get_undone_scrape_jobs_def Let_def outside_fields
        env_all_values falsy_str_def client_strict_def no_fault_def db_empty_def)

text \<open>
  C10, as the handler has it. For a request other than the pre-flight one: the answer
  is status 500, with \<^verbatim>\<open>success: false\<close> and a message, exactly when the credential or
  the executor URL is absent or empty, the client constructor throws, or the fetch of
  the batch fails; otherwise it is status 200, whatever happens to the jobs. With a
  batch that is not empty the body is the summary with \<^verbatim>\<open>success: true\<close> and
  \<^verbatim>\<open>total_found\<close> the size of the batch, also when every job fails; with an empty
  batch the body is the message \<^verbatim>\<open>No undone jobs found\<close> and a timestamp.
\<close>

theorem C10_status_200_unless_fatal:
  assumes "req_method req \<noteq> ''OPTIONS''"
  shows "(if falsy_str (env x ''SERVICE_ROLE_KEY'') \<or> falsy_str (env x ''REDIS_URL'') \<or>
             isl (createClient x (env x ''SUPABASE_URL'') (env x ''SERVICE_ROLE_KEY'')) \<or>
             store_fault x (trace st) (Rpc ''get_undone_scrape_jobs'') \<noteq> None
          then resp_status (fst (serve x req st)) = 500 \<and>
               (\<exists>msg. resp_body (fst (serve x req st)) = Failure False msg (now x))
          else resp_status (fst (serve x req st)) = 200 \<and>
               (if get_undone_scrape_jobs (db st) = []
                then resp_body (fst (serve x req st)) = NoJobs ''No undone jobs found'' (now x)
                else \<exists>msg processedJobs failedJobs.
                       resp_body (fst (serve x req st)) =
                         Summary True msg processedJobs failedJobs
                           (length (get_undone_scrape_jobs (db st))) (now x)))"
proof (cases "falsy_str (env x ''SERVICE_ROLE_KEY'') \<or> falsy_str (env x ''REDIS_URL'') \<or>
             isl (createClient x (env x ''SUPABASE_URL'') (env x ''SERVICE_ROLE_KEY''))")
  case True
  from try_pass_config [OF this] obtain e where "try_pass x st = (Inl e, st)" ..
  with assms True show ?thesis
    by (auto simp: serve_def)
next
  case False
  then have k: "\<not> falsy_str (env x ''SERVICE_ROLE_KEY'')" and u: "\<not> falsy_str (env x ''REDIS_URL'')"
    and "\<not> isl (createClient x (env x ''SUPABASE_URL'') (env x ''SERVICE_ROLE_KEY''))"
    by simp_all
  then obtain c where cc: "createClient x (env x ''SUPABASE_URL'') (env x ''SERVICE_ROLE_KEY'') = Inr c"
    by (cases "createClient x (env x ''SUPABASE_URL'') (env x ''SERVICE_ROLE_KEY'')") simp_all
  show ?thesis
  proof (cases "store_fault x (trace st) (Rpc ''get_undone_scrape_jobs'')")
    case None
    obtain P F st2 where loop:
      "for_jobs x (env x ''REDIS_URL'') (get_undone_scrape_jobs (db st)) ([], [])
         (st\<lparr>trace := trace st @ [Rpc ''get_undone_scrape_jobs'']\<rparr>) = ((P, F), st2)"
      by (metis surj_pair)
    with assms False None show ?thesis
      by (simp add: serve_def try_pass_ok [OF k u cc None])
  next
    case (Some flt)
    with assms False show ?thesis
      by (simp add: serve_def try_pass_rpc_fault [OF k u cc Some])
  qed
qed

text \<open>A pass in which every job fails (the executor refuses both) is answered 200 with
  \<^verbatim>\<open>success: true\<close>.\<close>

theorem C10_status_200_unless_fatal_witness:
  "resp_status (fst (serve (outside env_all client_strict no_fault (always refused)) post
                       (start db_XY))) = 200 \<and>
   (\<exists>msg processedJobs failedJobs.
      resp_body (fst (serve (outside env_all client_strict no_fault (always refused)) post
                        (start db_XY))) =
        Summary True msg processedJobs failedJobs 2 ''2025-01-01T00:00:00.000Z'')"
proof -
  let ?x = "outside env_all client_strict no_fault (always refused)"
  have fatal: "\<not> (falsy_str (env ?x ''SERVICE_ROLE_KEY'') \<or> falsy_str (env ?x ''REDIS_URL'') \<or>
             isl (createClient ?x (env ?x ''SUPABASE_URL'') (env ?x ''SERVICE_ROLE_KEY'')) \<or>
             store_fault ?x (trace (start db_XY)) (Rpc ''get_undone_scrape_jobs'') \<noteq> None)"
    by (simp add: outside_fields env_all_values falsy_str_def client_strict_def no_fault_def)
  have b: "get_undone_scrape_jobs (db (start db_XY)) = [JobX, JobY]"
    by (simp add: start_fields fetched_XY)
  from C10_status_200_unless_fatal [OF post_method, of ?x "start db_XY"] fatal
  have "resp_status (fst (serve ?x post (start db_XY))) = 200 \<and>
        (\<exists>msg processedJobs failedJobs.
           resp_body (fst (serve ?x post (start db_XY))) =
             Summary True msg processedJobs failedJobs
               (length (get_undone_scrape_jobs (db (start db_XY)))) (now ?x))"
    unfolding b by (simp only: if_False list.distinct)
  then obtain msg P F where
    "resp_status (fst (serve ?x post (start db_XY))) = 200"
    and "resp_body (fst (serve ?x post (start db_XY))) =
           Summary True msg P F (length [JobX, JobY]) (now ?x)"
    unfolding b by blast
  then show ?thesis
    by (intro conjI exI [of _ msg] exI [of _ P] exI [of _ F]) (simp_all add: outside_fields)
qed

end
